theory Spec2Isabelle
  imports Complex_Main "HOL-Library.Sublist"
begin

section \<open>Python values of \<^verbatim>\<open>bot.py\<close>\<close>

subsection \<open>Strings\<close>

text \<open>
  A Python \<^verbatim>\<open>str\<close> is a sequence of Unicode code points, so \<^verbatim>\<open>len\<close>, slicing and
  \<^verbatim>\<open>strip\<close> count code points. A string is modelled as the list of its code points;
  \<open>py\<close> turns an ASCII literal into such a list. The symbols of the source outside
  ASCII are written as their code points: U+26A0 U+FE0F (warning sign), U+274C (cross
  mark), U+2705 (check mark), U+2026 (ellipsis).
\<close>

type_synonym pystr = "nat list"

definition py :: "string \<Rightarrow> pystr" where
  "py s = map of_char s"

text \<open>
  \<^verbatim>\<open>str.isspace\<close>, which decides what \<^verbatim>\<open>str.strip()\<close> removes: the code points of
  bidirectional class WS, B or S and of category Zs.
\<close>

definition isspace :: "nat \<Rightarrow> bool" where
  "isspace c \<longleftrightarrow>
     (9 \<le> c \<and> c \<le> 13) \<or> (28 \<le> c \<and> c \<le> 32) \<or> c = 133 \<or> c = 160 \<or> c = 5760 \<or>
     (8192 \<le> c \<and> c \<le> 8202) \<or> c = 8232 \<or> c = 8233 \<or> c = 8239 \<or> c = 8287 \<or> c = 12288"

definition strip :: "pystr \<Rightarrow> pystr" where
  "strip s = rev (dropWhile isspace (rev (dropWhile isspace s)))"

text \<open>
  \<^verbatim>\<open>str.lower\<close>. The case table is reproduced for the ASCII letters, the only letters
  of the five terminal status words; every other code point is returned as it is.
  No code point outside ASCII lowercases to a string of ASCII letters of those words,
  so the membership test of the poll loop is the one of Python on every input; the
  status named in the time-out message is Python's for statuses without cased letters
  outside ASCII.
\<close>

definition lower_char :: "nat \<Rightarrow> nat" where
  "lower_char c = (if 65 \<le> c \<and> c \<le> 90 then c + 32 else c)"

definition lower :: "pystr \<Rightarrow> pystr" where
  "lower s = map lower_char s"

text \<open>\<^verbatim>\<open>str(n)\<close> for an integer: decimal digits, with a minus sign below zero.\<close>

function str_nat :: "nat \<Rightarrow> pystr" where
  "str_nat n = (if n < 10 then [48 + n] else str_nat (n div 10) @ [48 + n mod 10])"
  by pat_completeness auto
termination
  by (relation "measure id") auto

declare str_nat.simps [simp del]

definition str_int :: "int \<Rightarrow> pystr" where
  "str_int i = (if i < 0 then 45 # str_nat (nat (- i)) else str_nat (nat i))"

subsection \<open>JSON values\<close>

text \<open>
  What \<^verbatim>\<open>Response.json()\<close> returns: \<^verbatim>\<open>None\<close>, a bool, an int, a float, a str, a list or
  a dict with string keys. A dict is an association list in insertion order (its keys
  are distinct in Python; \<open>dict_get\<close> reads the first binding). A float is carried as
  the text \<^verbatim>\<open>json.dumps\<close> writes for it; the only falsy floats are the two zeros.
\<close>

datatype json =
    JNull
  | JBool bool
  | JInt int
  | JFloat pystr
  | JStr pystr
  | JArr "json list"
  | JObj "(pystr \<times> json) list"

text \<open>The three handlers of \<^verbatim>\<open>handle_default_route\<close> tell these classes apart; each
  exception carries \<^verbatim>\<open>str(e)\<close>.\<close>

datatype exn =
    Timeout pystr
  | RequestException pystr
  | Exception pystr

definition type_name :: "json \<Rightarrow> pystr" where
  "type_name v =
     (case v of JNull \<Rightarrow> py ''NoneType'' | JBool _ \<Rightarrow> py ''bool'' | JInt _ \<Rightarrow> py ''int''
      | JFloat _ \<Rightarrow> py ''float'' | JStr _ \<Rightarrow> py ''str'' | JArr _ \<Rightarrow> py ''list''
      | JObj _ \<Rightarrow> py ''dict'')"

definition AttributeError :: "json \<Rightarrow> string \<Rightarrow> exn" where
  "AttributeError v attr =
     Exception ([39] @ type_name v @ [39] @ py '' object has no attribute '' @ [39] @ py attr @ [39])"

text \<open>Truth value of a JSON value, as \<^verbatim>\<open>not x\<close> and \<^verbatim>\<open>x or y\<close> test it.\<close>

definition truthy :: "json \<Rightarrow> bool" where
  "truthy v =
     (case v of JNull \<Rightarrow> False | JBool b \<Rightarrow> b | JInt n \<Rightarrow> n \<noteq> 0
      | JFloat r \<Rightarrow> r \<noteq> py ''0.0'' \<and> r \<noteq> py ''-0.0'' | JStr s \<Rightarrow> s \<noteq> []
      | JArr xs \<Rightarrow> xs \<noteq> [] | JObj kvs \<Rightarrow> kvs \<noteq> [])"

text \<open>\<^verbatim>\<open>d.get(k)\<close> on a dict: the value, or \<^verbatim>\<open>None\<close> for a missing key.\<close>

definition dict_get :: "(pystr \<times> json) list \<Rightarrow> pystr \<Rightarrow> json" where
  "dict_get d k = (case map_of d k of None \<Rightarrow> JNull | Some v \<Rightarrow> v)"

text \<open>\<^verbatim>\<open>x.get(k)\<close> on any JSON value: only a dict has the method.\<close>

definition py_get :: "json \<Rightarrow> pystr \<Rightarrow> exn + json" where
  "py_get x k = (case x of JObj d \<Rightarrow> Inr (dict_get d k) | _ \<Rightarrow> Inl (AttributeError x ''get''))"

subsection \<open>\<^verbatim>\<open>json.dumps(obj, ensure_ascii=False, indent=2)\<close>\<close>

definition hexdigit :: "nat \<Rightarrow> nat" where
  "hexdigit d = (if d < 10 then 48 + d else 87 + d)"

text \<open>With \<^verbatim>\<open>ensure_ascii=False\<close> only the backslash, the double quote and the control
  characters are escaped.\<close>

definition escape_char :: "nat \<Rightarrow> pystr" where
  "escape_char c =
     (if c = 92 then [92, 92]
      else if c = 34 then [92, 34]
      else if c = 8 then [92, 98]
      else if c = 12 then [92, 102]
      else if c = 10 then [92, 110]
      else if c = 13 then [92, 114]
      else if c = 9 then [92, 116]
      else if c < 32 then [92, 117, 48, 48, hexdigit (c div 16), hexdigit (c mod 16)]
      else [c])"

definition encode_basestring :: "pystr \<Rightarrow> pystr" where
  "encode_basestring s = [34] @ concat (map escape_char s) @ [34]"

definition newline_indent :: "nat \<Rightarrow> pystr" where
  "newline_indent lvl = 10 # replicate (2 * lvl) 32"

fun intercalate :: "'a list \<Rightarrow> 'a list list \<Rightarrow> 'a list" where
  "intercalate sep [] = []"
| "intercalate sep [x] = x"
| "intercalate sep (x # y # ys) = x @ sep @ intercalate sep (y # ys)"

fun iterencode :: "nat \<Rightarrow> json \<Rightarrow> pystr" where
  "iterencode lvl JNull = py ''null''"
| "iterencode lvl (JBool b) = (if b then py ''true'' else py ''false'')"
| "iterencode lvl (JInt n) = str_int n"
| "iterencode lvl (JFloat r) = r"
| "iterencode lvl (JStr s) = encode_basestring s"
| "iterencode lvl (JArr xs) =
     (if xs = [] then py ''[]''
      else py ''['' @ newline_indent (Suc lvl)
           @ intercalate (py '','' @ newline_indent (Suc lvl)) (map (iterencode (Suc lvl)) xs)
           @ newline_indent lvl @ py '']'')"
| "iterencode lvl (JObj kvs) =
     (if kvs = [] then py ''{}''
      else py ''{'' @ newline_indent (Suc lvl)
           @ intercalate (py '','' @ newline_indent (Suc lvl))
               (map (\<lambda>(k, v). encode_basestring k @ py '': '' @ iterencode (Suc lvl) v) kvs)
           @ newline_indent lvl @ py ''}'')"

definition json_dumps :: "json \<Rightarrow> pystr" where
  "json_dumps obj = iterencode 0 obj"

section \<open>The result extractor\<close>

text \<open>
  The functions of the source whose names start with an underscore are named here without
  it. \<^verbatim>\<open>_json_compact(obj, limit=2000)\<close>: \<^verbatim>\<open>json.dumps\<close> does not raise on a value that came
  out of \<^verbatim>\<open>Response.json()\<close>, so the \<^verbatim>\<open>except\<close> branch (\<^verbatim>\<open>s = str(obj)\<close>) has no
  counterpart here.
\<close>

definition json_compact_limit :: "nat \<Rightarrow> json \<Rightarrow> pystr" where
  "json_compact_limit limit obj =
     (let s = json_dumps obj in if length s \<le> limit then s else take limit s @ [32, 8230])"

definition json_compact :: "json \<Rightarrow> pystr" where
  "json_compact obj = json_compact_limit 2000 obj"

definition candidate_fields :: "pystr list" where
  "candidate_fields = [py ''result'', py ''final'', py ''text'', py ''message'', py ''output'']"

text \<open>The \<^verbatim>\<open>for k in (...)\<close> loop of the extractor over a dict \<open>fr\<close>: \<open>None\<close> when the
  loop runs to its end.\<close>

fun probe :: "pystr list \<Rightarrow> (pystr \<times> json) list \<Rightarrow> pystr option" where
  "probe [] fr = None"
| "probe (k # ks) fr =
     (case dict_get fr k of
        JStr v \<Rightarrow> if strip v \<noteq> [] then Some (strip v) else probe ks fr
      | _ \<Rightarrow> probe ks fr)"

text \<open>\<^verbatim>\<open>_extract_final_text_from_payload(payload)\<close>; \<open>Inl\<close> is the exception that
  \<^verbatim>\<open>payload.get\<close> raises when the payload is not a dict.\<close>

definition extract_final_text_from_payload :: "json \<Rightarrow> exn + pystr option" where
  "extract_final_text_from_payload payload =
     (case py_get payload (py ''final_result'') of
        Inl e \<Rightarrow> Inl e
      | Inr fr \<Rightarrow>
          Inr (case fr of
                 JNull \<Rightarrow> None
               | JStr s0 \<Rightarrow> (let s = strip s0 in if s \<noteq> [] then Some s else None)
               | JObj d \<Rightarrow>
                   (case probe candidate_fields d of
                      Some t \<Rightarrow> Some t
                    | None \<Rightarrow> Some (json_compact fr))
               | _ \<Rightarrow> None))"

subsection \<open>The extractor as the specification words it\<close>

definition nonblank_string :: "json option \<Rightarrow> bool" where
  "nonblank_string v = (case v of Some (JStr s) \<Rightarrow> strip s \<noteq> [] | _ \<Rightarrow> False)"

definition spec_extract :: "(pystr \<times> json) list \<Rightarrow> pystr option" where
  "spec_extract payload =
     (case map_of payload (py ''final_result'') of
        None \<Rightarrow> None
      | Some JNull \<Rightarrow> None
      | Some (JStr s) \<Rightarrow> (if strip s = [] then None else Some (strip s))
      | Some (JObj m) \<Rightarrow>
          (case List.find (\<lambda>k. nonblank_string (map_of m k)) candidate_fields of
             Some k \<Rightarrow> (case map_of m k of Some (JStr v) \<Rightarrow> Some (strip v) | _ \<Rightarrow> None)
           | None \<Rightarrow> Some (json_compact (JObj m)))
      | Some _ \<Rightarrow> None)"

section \<open>The submission and poll client\<close>

subsection \<open>The backend as the client sees it\<close>

text \<open>
  A \<^verbatim>\<open>requests.Response\<close> as far as the client reads it: the status code, the reason
  phrase and the URL (both go into the message of \<^verbatim>\<open>raise_for_status\<close>), the body text
  (\<^verbatim>\<open>Response.text\<close>, always a string) and what \<^verbatim>\<open>Response.json()\<close> does on that body:
  the parsed value, or the exception it raises.
\<close>

record response =
  status_code :: int
  reason :: pystr
  url :: pystr
  resp_text :: pystr
  resp_json :: "exn + json"

text \<open>
  The world outside the process. \<open>post_reply\<close> is what \<^verbatim>\<open>session.post\<close> does with the
  request body: a response, or the exception it raises. \<open>status_reply\<close> and
  \<open>result_reply\<close> are what \<^verbatim>\<open>session.get\<close> does on the status and result URLs of an
  execution identifier; the status URL is fetched many times, so its reply depends on
  the number of earlier fetches, and the fetch number \<open>k\<close> takes \<open>status_duration k\<close>
  seconds. \<open>clock0\<close> is the reading of \<^verbatim>\<open>time.monotonic()\<close> at line 172. Time is a real
  number of seconds; \<^verbatim>\<open>time.sleep(d)\<close> takes \<open>d\<close> seconds, and the statements between two
  requests take none. Every request ends, with a response or with an exception.
\<close>

record world =
  post_reply :: "json \<Rightarrow> exn + response"
  status_reply :: "json \<Rightarrow> nat \<Rightarrow> exn + response"
  status_duration :: "nat \<Rightarrow> real"
  result_reply :: "json \<Rightarrow> exn + response"
  clock0 :: real

text \<open>The entries of \<^verbatim>\<open>RUNTIME\<close> that \<^verbatim>\<open>handle_default_route\<close> reads, with their values
  in the source.\<close>

record runtime =
  poll_interval :: real
  max_wait :: real

definition RUNTIME :: runtime where
  "RUNTIME = \<lparr>poll_interval = 1, max_wait = 120\<rparr>"

text \<open>What the function does to the outside, in order.\<close>

datatype event =
    PostJson json
  | LogStarted json
  | GetStatus json
  | LogStatus pystr
  | Sleep real
  | GetResult json
  | LogException

subsection \<open>The texts of \<^verbatim>\<open>UX\<close>\<close>

definition UX_timeout :: pystr where
  "UX_timeout = [9888, 65039] @ py '' Backend timed out. Try again shortly.''"

definition UX_network_err :: pystr where
  "UX_network_err = [10060] @ py '' Network error. Backend unreachable.''"

definition UX_backend_err :: "int \<Rightarrow> pystr \<Rightarrow> pystr" where
  "UX_backend_err code body = [10060] @ py '' Backend error '' @ str_int code @ py '':'' @ [10] @ body"

definition UX_success_no_text :: "pystr \<Rightarrow> pystr" where
  "UX_success_no_text body =
     [9989] @ py '' Success, but no simple text field found:'' @ [10] @ body"

text \<open>The f-string of line 188.\<close>

definition poll_timeout_msg :: "pystr \<Rightarrow> pystr" where
  "poll_timeout_msg status =
     [9888, 65039] @ py '' Backend timed out waiting for result (last status=''
     @ (if status \<noteq> [] then status else py ''unknown'') @ py '').''"

subsection \<open>The requests\<close>

text \<open>\<^verbatim>\<open>Response.raise_for_status()\<close> of the requests library: it builds a message for
  the codes 400 to 499 and 500 to 599 and raises an \<^verbatim>\<open>HTTPError\<close> (a \<^verbatim>\<open>RequestException\<close>
  that is no \<^verbatim>\<open>Timeout\<close>) when there is a message; for any other code it does nothing.\<close>

definition http_error_msg :: "response \<Rightarrow> pystr" where
  "http_error_msg r =
     (if 400 \<le> status_code r \<and> status_code r < 500 then
        str_int (status_code r) @ py '' Client Error: '' @ reason r @ py '' for url: '' @ url r
      else if 500 \<le> status_code r \<and> status_code r < 600 then
        str_int (status_code r) @ py '' Server Error: '' @ reason r @ py '' for url: '' @ url r
      else [])"

definition raise_for_status :: "response \<Rightarrow> exn + unit" where
  "raise_for_status r =
     (if http_error_msg r \<noteq> [] then Inl (RequestException (http_error_msg r)) else Inr ())"

text \<open>\<^verbatim>\<open>_get_status(execution_id)\<close>, at its fetch number \<open>k\<close>.\<close>

definition get_status :: "world \<Rightarrow> json \<Rightarrow> nat \<Rightarrow> exn + json" where
  "get_status w execution_id k =
     (case status_reply w execution_id k of
        Inl e \<Rightarrow> Inl e
      | Inr r \<Rightarrow> (case raise_for_status r of Inl e \<Rightarrow> Inl e | Inr _ \<Rightarrow> resp_json r))"

text \<open>\<^verbatim>\<open>_get_result(execution_id)\<close>.\<close>

definition get_result :: "world \<Rightarrow> json \<Rightarrow> exn + json" where
  "get_result w execution_id =
     (case result_reply w execution_id of
        Inl e \<Rightarrow> Inl e
      | Inr r \<Rightarrow> (case raise_for_status r of Inl e \<Rightarrow> Inl e | Inr _ \<Rightarrow> resp_json r))"

subsection \<open>The poll loop\<close>

definition terminal :: "pystr set" where
  "terminal = {py ''completed'', py ''failed'', py ''timeout'', py ''timed_out'', py ''cancelled''}"

text \<open>Line 180, \<^verbatim>\<open>(status_payload.get("status") or "").lower()\<close>, in its three steps: the
  lookup, the \<^verbatim>\<open>or\<close>, and \<^verbatim>\<open>lower\<close>, which only a string has.\<close>

definition status_or_empty :: "json \<Rightarrow> exn + json" where
  "status_or_empty status_payload =
     (case py_get status_payload (py ''status'') of
        Inl e \<Rightarrow> Inl e
      | Inr v \<Rightarrow> Inr (if truthy v then v else JStr []))"

definition py_lower :: "json \<Rightarrow> exn + pystr" where
  "py_lower x = (case x of JStr s \<Rightarrow> Inr (lower s) | _ \<Rightarrow> Inl (AttributeError x ''lower''))"

definition status_of :: "json \<Rightarrow> exn + pystr" where
  "status_of status_payload =
     (case status_or_empty status_payload of Inl e \<Rightarrow> Inl e | Inr x \<Rightarrow> py_lower x)"

text \<open>How the \<^verbatim>\<open>while True\<close> loop is left: by \<^verbatim>\<open>break\<close>, by the \<^verbatim>\<open>return\<close> of line 188,
  or by an exception.\<close>

datatype loop_exit =
    Break
  | Return pystr
  | Raise exn

text \<open>
  The loop of lines 178 to 190, from its iteration number \<open>k\<close> on: \<open>now\<close> is the time
  at which the iteration starts, \<open>tr\<close> what has happened so far. The result is the way
  the loop is left, the time at which it is left, and what has happened. \<^verbatim>\<open>time.sleep\<close>
  raises \<^verbatim>\<open>ValueError\<close> on a negative length. A loop that never ends has the value
  \<open>None\<close>.
\<close>

partial_function (option) poll_loop ::
  "runtime \<Rightarrow> world \<Rightarrow> json \<Rightarrow> real \<Rightarrow> real \<Rightarrow> nat \<Rightarrow> pystr option \<Rightarrow> event list
   \<Rightarrow> (loop_exit \<times> real \<times> event list) option" where
  "poll_loop cfg w execution_id t0 now k last_status tr =
     (let tr1 = tr @ [GetStatus execution_id]; now1 = now + status_duration w k in
      case get_status w execution_id k of
        Inl e \<Rightarrow> Some (Raise e, now1, tr1)
      | Inr status_payload \<Rightarrow>
          (case status_of status_payload of
             Inl e \<Rightarrow> Some (Raise e, now1, tr1)
           | Inr status \<Rightarrow>
               (let tr2 = (if Some status \<noteq> last_status then tr1 @ [LogStatus status] else tr1) in
                if status \<in> terminal then Some (Break, now1, tr2)
                else if now1 - t0 > max_wait cfg then Some (Return (poll_timeout_msg status), now1, tr2)
                else if poll_interval cfg < 0 then
                  Some (Raise (Exception (py ''sleep length must be non-negative'')), now1, tr2)
                else poll_loop cfg w execution_id t0 (now1 + poll_interval cfg) (Suc k)
                       (Some status) (tr2 @ [Sleep (poll_interval cfg)]))))"

subsection \<open>\<^verbatim>\<open>handle_default_route\<close>\<close>

definition request_body :: "pystr \<Rightarrow> int \<Rightarrow> json" where
  "request_body prompt user_id =
     JObj [(py ''goal'', JStr prompt), (py ''user_id'', JInt user_id), (py ''max_depth'', JInt 1),
           (py ''config_overrides'',
              JObj [(py ''observability'', JObj [(py ''mlflow'', JObj [(py ''enabled'', JBool False)])])])]"

text \<open>Lines 197 and 198: the reply when the extractor found no text.\<close>

definition no_text_reply :: "json \<Rightarrow> exn + pystr" where
  "no_text_reply result_payload =
     (case py_get result_payload (py ''status'') of
        Inl e \<Rightarrow> Inl e
      | Inr st \<Rightarrow>
          (case py_get result_payload (py ''final_result'') of
             Inl e \<Rightarrow> Inl e
           | Inr fr \<Rightarrow>
               Inr (UX_success_no_text
                      (json_compact (JObj [(py ''status'', st), (py ''final_result'', fr)])))))"

text \<open>Lines 192 to 198, after the loop was left by \<^verbatim>\<open>break\<close>.\<close>

definition fetch_and_extract :: "world \<Rightarrow> json \<Rightarrow> event list \<Rightarrow> (exn + pystr) \<times> event list" where
  "fetch_and_extract w execution_id tr =
     (let tr1 = tr @ [GetResult execution_id] in
      case get_result w execution_id of
        Inl e \<Rightarrow> (Inl e, tr1)
      | Inr result_payload \<Rightarrow>
          (case extract_final_text_from_payload result_payload of
             Inl e \<Rightarrow> (Inl e, tr1)
           | Inr None \<Rightarrow> (no_text_reply result_payload, tr1)
           | Inr (Some text) \<Rightarrow>
               (if text \<noteq> [] then (Inr text, tr1) else (no_text_reply result_payload, tr1))))"

text \<open>The body of the \<^verbatim>\<open>try\<close>, lines 157 to 198: the string it returns or the exception
  that leaves it, and what has happened.\<close>

definition try_body :: "runtime \<Rightarrow> world \<Rightarrow> pystr \<Rightarrow> int \<Rightarrow> ((exn + pystr) \<times> event list) option" where
  "try_body cfg w prompt user_id =
     (let body = request_body prompt user_id; tr0 = [PostJson body] in
      case post_reply w body of
        Inl e \<Rightarrow> Some (Inl e, tr0)
      | Inr resp \<Rightarrow>
          if \<not> (200 \<le> status_code resp \<and> status_code resp < 300) then
            Some (Inr (UX_backend_err (status_code resp) (take 2000 (resp_text resp))), tr0)
          else
            (let j = (case resp_json resp of Inl e \<Rightarrow> JObj [] | Inr v \<Rightarrow> v) in
             case py_get j (py ''execution_id'') of
               Inl e \<Rightarrow> Some (Inl e, tr0)
             | Inr execution_id \<Rightarrow>
                 if \<not> truthy execution_id then
                   Some (Inr (UX_success_no_text (py ''(no execution_id)'' @ [10] @ json_compact j)), tr0)
                 else
                   (case poll_loop cfg w execution_id (clock0 w) (clock0 w) 0 None
                           (tr0 @ [LogStarted execution_id]) of
                      None \<Rightarrow> None
                    | Some (Return msg, t, tr) \<Rightarrow> Some (Inr msg, tr)
                    | Some (Raise e, t, tr) \<Rightarrow> Some (Inl e, tr)
                    | Some (Break, t, tr) \<Rightarrow> Some (fetch_and_extract w execution_id tr))))"

text \<open>The three \<^verbatim>\<open>except\<close> clauses, lines 200 to 206.\<close>

definition except_clauses :: "exn \<Rightarrow> event list \<Rightarrow> pystr \<times> event list" where
  "except_clauses e tr =
     (case e of
        Timeout m \<Rightarrow> (UX_timeout, tr)
      | RequestException m \<Rightarrow> (UX_network_err @ [10, 10] @ py ''Details: '' @ m, tr)
      | Exception m \<Rightarrow> ([10060] @ py '' Unexpected error: '' @ m, tr @ [LogException]))"

text \<open>\<^verbatim>\<open>handle_default_route(prompt, user_id)\<close>: the string returned and what has happened,
  or \<open>None\<close> when the call does not return.\<close>

definition handle_default_route ::
  "runtime \<Rightarrow> world \<Rightarrow> pystr \<Rightarrow> int \<Rightarrow> (pystr \<times> event list) option" where
  "handle_default_route cfg w prompt user_id =
     (case try_body cfg w prompt user_id of
        None \<Rightarrow> None
      | Some (Inr reply, tr) \<Rightarrow> Some (reply, tr)
      | Some (Inl e, tr) \<Rightarrow> Some (except_clauses e tr))"

text \<open>The number of status fetches in a trace.\<close>

definition polls :: "event list \<Rightarrow> nat" where
  "polls tr = length (filter (\<lambda>ev. case ev of GetStatus _ \<Rightarrow> True | _ \<Rightarrow> False) tr)"

definition fetched_result :: "event list \<Rightarrow> bool" where
  "fetched_result tr = list_ex (\<lambda>ev. case ev of GetResult _ \<Rightarrow> True | _ \<Rightarrow> False) tr"

section \<open>Runs of the client\<close>

text \<open>The notions in which the properties of the poll loop are stated.\<close>

text \<open>The status that the loop computes at its fetch number \<open>k\<close>: lines 179 and 180.\<close>

definition polled_status :: "world \<Rightarrow> json \<Rightarrow> nat \<Rightarrow> exn + pystr" where
  "polled_status w execution_id k =
     (case get_status w execution_id k of Inl e \<Rightarrow> Inl e | Inr p \<Rightarrow> status_of p)"

text \<open>The time at which the status fetch number \<open>k\<close> starts when the loop gets that far:
  every earlier iteration took its fetch and one sleep.\<close>

fun poll_start :: "runtime \<Rightarrow> world \<Rightarrow> nat \<Rightarrow> real" where
  "poll_start cfg w 0 = clock0 w"
| "poll_start cfg w (Suc k) = poll_start cfg w k + status_duration w k + poll_interval cfg"

text \<open>The iteration number \<open>k\<close> goes on to the sleep: its status is not terminal and the
  budget check of line 187 passes.\<close>

definition pending :: "runtime \<Rightarrow> world \<Rightarrow> json \<Rightarrow> nat \<Rightarrow> bool" where
  "pending cfg w execution_id k =
     (case polled_status w execution_id k of
        Inl e \<Rightarrow> False
      | Inr status \<Rightarrow>
          status \<notin> terminal
          \<and> \<not> (poll_start cfg w k + status_duration w k - clock0 w > max_wait cfg))"

text \<open>The submission is answered by a 2xx response whose JSON body is a dict with the
  truthy identifier \<open>execution_id\<close>.\<close>

definition accepted :: "world \<Rightarrow> pystr \<Rightarrow> int \<Rightarrow> json \<Rightarrow> bool" where
  "accepted w prompt user_id execution_id =
     (case post_reply w (request_body prompt user_id) of
        Inl e \<Rightarrow> False
      | Inr resp \<Rightarrow>
          200 \<le> status_code resp \<and> status_code resp < 300
          \<and> (case resp_json resp of
                Inr (JObj d) \<Rightarrow> dict_get d (py ''execution_id'') = execution_id \<and> truthy execution_id
              | _ \<Rightarrow> False))"

text \<open>
  What a finished run of the loop from iteration \<open>k\<close> looks like, \<open>n\<close> being the number of
  iterations before the last one: \<open>n + 1\<close> status fetches and no result fetch were added
  to the trace; the first \<open>n\<close> statuses were not terminal; the loop was left by
  \<^verbatim>\<open>break\<close> exactly when the last status was terminal; and then the last fetch had
  started within budget plus one interval of \<open>t0\<close>, if the run started that early.
\<close>

definition run_inv ::
  "runtime \<Rightarrow> world \<Rightarrow> json \<Rightarrow> real \<Rightarrow> real \<Rightarrow> nat \<Rightarrow> event list
   \<Rightarrow> loop_exit \<times> real \<times> event list \<Rightarrow> nat \<Rightarrow> bool" where
  "run_inv cfg w eid t0 now k tr r n \<longleftrightarrow>
     (case r of (ex, t, tr') \<Rightarrow>
        polls tr' = polls tr + Suc n
        \<and> fetched_result tr' = fetched_result tr
        \<and> (\<forall>i<n. \<exists>s. polled_status w eid (k + i) = Inr s \<and> s \<notin> terminal)
        \<and> (ex = Break \<longleftrightarrow> (\<exists>s. polled_status w eid (k + n) = Inr s \<and> s \<in> terminal))
        \<and> (now - t0 \<le> max_wait cfg + poll_interval cfg \<longrightarrow> ex = Break \<longrightarrow>
             t - status_duration w (k + n) - t0 \<le> max_wait cfg + poll_interval cfg))"

text \<open>The status that the time-out text names according to the specification: the last
  observed status, or \<^verbatim>\<open>unknown\<close> if no non-empty status was observed yet.\<close>

definition spec_timeout_name :: "pystr list \<Rightarrow> pystr" where
  "spec_timeout_name observed =
     (if list_all (\<lambda>s. s = []) observed then py ''unknown'' else last observed)"

section \<open>Example backends\<close>

text \<open>Responses with a JSON body and with a body that is not JSON (then \<^verbatim>\<open>Response.json()\<close>
  raises a decoding error).\<close>

definition json_response :: "int \<Rightarrow> string \<Rightarrow> string \<Rightarrow> json \<Rightarrow> response" where
  "json_response code phrase u j =
     \<lparr>status_code = code, reason = py phrase, url = py u, resp_text = json_dumps j,
      resp_json = Inr j\<rparr>"

definition text_response :: "int \<Rightarrow> string \<Rightarrow> string \<Rightarrow> string \<Rightarrow> response" where
  "text_response code phrase u body =
     \<lparr>status_code = code, reason = py phrase, url = py u, resp_text = py body,
      resp_json = Inl (RequestException (py ''Expecting value: line 1 column 1 (char 0)''))\<rparr>"

definition status_json :: "string \<Rightarrow> response" where
  "status_json s =
     json_response 200 ''OK'' ''http://localhost:8000/api/v1/executions/abc/status''
       (JObj [(py ''status'', JStr (py s))])"

definition result_42 :: response where
  "result_42 =
     json_response 200 ''OK'' ''http://localhost:8000/api/v1/executions/abc''
       (JObj [(py ''status'', JStr (py ''completed'')), (py ''final_result'', JStr (py ''42''))])"

text \<open>A backend that answers the submission as the argument says; nothing else is ever
  asked of it.\<close>

definition submission_only :: "exn + response \<Rightarrow> world" where
  "submission_only r =
     \<lparr>post_reply = (\<lambda>body. r),
      status_reply = (\<lambda>execution_id k. Inl (RequestException (py ''connection refused''))),
      status_duration = (\<lambda>k. 0),
      result_reply = (\<lambda>execution_id. Inl (RequestException (py ''connection refused''))),
      clock0 = 0\<rparr>"

text \<open>A backend that accepts the submission with the identifier \<^verbatim>\<open>abc\<close>, answers the
  status fetch number \<open>k\<close> with \<open>statuses k\<close> after \<open>d\<close> seconds, and the result fetch with
  \<open>result\<close>.\<close>

definition backend :: "(nat \<Rightarrow> exn + response) \<Rightarrow> real \<Rightarrow> exn + response \<Rightarrow> world" where
  "backend statuses d result =
     \<lparr>post_reply = (\<lambda>body. Inr (json_response 202 ''Accepted''
          ''http://localhost:8000/api/v1/executions'' (JObj [(py ''execution_id'', JStr (py ''abc''))]))),
      status_reply = (\<lambda>execution_id k. statuses k),
      status_duration = (\<lambda>k. d),
      result_reply = (\<lambda>execution_id. result),
      clock0 = 0\<rparr>"

text \<open>The scenario of the specification: \<^verbatim>\<open>202 {"execution_id":"abc"}\<close>, then the statuses
  \<^verbatim>\<open>running\<close> and \<^verbatim>\<open>completed\<close>, then the result \<^verbatim>\<open>{"status":"completed","final_result":"42"}\<close>.\<close>

definition scenario_world :: world where
  "scenario_world =
     \<lparr>post_reply = (\<lambda>body. Inr \<lparr>status_code = 202, reason = py ''Accepted'',
          url = py ''http://localhost:8000/api/v1/executions'',
          resp_text = py ''{'' @ [34] @ py ''execution_id'' @ [34] @ py '':'' @ [34] @ py ''abc''
                      @ [34] @ py ''}'',
          resp_json = Inr (JObj [(py ''execution_id'', JStr (py ''abc''))])\<rparr>),
      status_reply = (\<lambda>execution_id k.
          Inr (status_json (if k = 0 then ''running'' else ''completed''))),
      status_duration = (\<lambda>k. 0),
      result_reply = (\<lambda>execution_id. Inr result_42),
      clock0 = 0\<rparr>"

text \<open>Twelve status fetches of nine seconds each report \<^verbatim>\<open>running\<close>; the thirteenth, which
  ends 129 seconds after the start, reports \<^verbatim>\<open>completed\<close>.\<close>

definition slow_world :: world where
  "slow_world =
     backend (\<lambda>k. Inr (status_json (if k < 12 then ''running'' else ''completed''))) 9
       (Inr result_42)"

text \<open>The same, but the thirteenth answer is \<^verbatim>\<open>{}\<close>: it has no status.\<close>

definition stalled_world :: world where
  "stalled_world =
     backend (\<lambda>k. Inr (if k < 12 then status_json ''running''
                        else json_response 200 ''OK''
                               ''http://localhost:8000/api/v1/executions/abc/status'' (JObj []))) 9
       (Inr result_42)"

text \<open>The status URL answers 300 with a JSON body that reports \<^verbatim>\<open>completed\<close>.\<close>

definition redirect_world :: world where
  "redirect_world =
     backend (\<lambda>k. Inr (json_response 300 ''Multiple Choices''
                         ''http://localhost:8000/api/v1/executions/abc/status''
                         (JObj [(py ''status'', JStr (py ''completed''))]))) 0
       (Inr result_42)"

text \<open>The second status fetch is answered 503; and a backend whose result URL answers 404.\<close>

definition failing_status_world :: world where
  "failing_status_world =
     backend (\<lambda>k. Inr (if k = 0 then status_json ''running''
                        else text_response 503 ''Service Unavailable''
                               ''http://localhost:8000/api/v1/executions/abc/status'' ''busy'')) 0
       (Inr result_42)"

definition failing_result_world :: world where
  "failing_result_world =
     backend (\<lambda>k. Inr (status_json ''completed'')) 0
       (Inr (text_response 404 ''Not Found'' ''http://localhost:8000/api/v1/executions/abc''
               ''no such execution''))"

section \<open>Properties of the extractor\<close>

lemma probe_find:
  "probe ks fr =
     (case List.find (\<lambda>k. nonblank_string (map_of fr k)) ks of
        Some k \<Rightarrow> (case map_of fr k of Some (JStr v) \<Rightarrow> Some (strip v) | _ \<Rightarrow> None)
      | None \<Rightarrow> None)"
  by (induction ks) (auto simp: dict_get_def nonblank_string_def split: option.splits json.splits)

lemma probe_or_compact:
  "(case probe ks fr of Some t \<Rightarrow> Some t | None \<Rightarrow> Some c) =
     (case List.find (\<lambda>k. nonblank_string (map_of fr k)) ks of
        Some k \<Rightarrow> (case map_of fr k of Some (JStr v) \<Rightarrow> Some (strip v) | _ \<Rightarrow> None)
      | None \<Rightarrow> Some c)"
proof (cases "List.find (\<lambda>k. nonblank_string (map_of fr k)) ks")
  case None
  then show ?thesis
    by (simp add: probe_find)
next
  case (Some k)
  then have "nonblank_string (map_of fr k)"
    by (auto simp: find_Some_iff)
  then obtain v where "map_of fr k = Some (JStr v)"
    by (cases "map_of fr k"; cases "the (map_of fr k)") (simp_all add: nonblank_string_def)
  with Some show ?thesis
    by (simp add: probe_find)
qed

lemma length_json_compact: "length (json_compact obj) \<le> 2002"
  by (simp add: json_compact_def json_compact_limit_def Let_def)



section \<open>Properties of the poll loop\<close>

lemma polls_append [simp]: "polls (xs @ ys) = polls xs + polls ys"
  by (simp add: polls_def)

lemma fetched_result_append [simp]:
  "fetched_result (xs @ ys) \<longleftrightarrow> fetched_result xs \<or> fetched_result ys"
  by (simp add: fetched_result_def list_ex_iff) blast

lemma polls_simps [simp]:
  "polls [] = 0"
  "polls (GetStatus e # xs) = Suc (polls xs)"
  "polls (PostJson b # xs) = polls xs"
  "polls (LogStarted e # xs) = polls xs"
  "polls (LogStatus s # xs) = polls xs"
  "polls (Sleep d # xs) = polls xs"
  "polls (GetResult e # xs) = polls xs"
  "polls (LogException # xs) = polls xs"
  by (simp_all add: polls_def)

lemma fetched_result_simps [simp]:
  "fetched_result [] = False"
  "fetched_result (GetStatus e # xs) = fetched_result xs"
  "fetched_result (PostJson b # xs) = fetched_result xs"
  "fetched_result (LogStarted e # xs) = fetched_result xs"
  "fetched_result (LogStatus s # xs) = fetched_result xs"
  "fetched_result (Sleep d # xs) = fetched_result xs"
  "fetched_result (GetResult e # xs) = True"
  "fetched_result (LogException # xs) = fetched_result xs"
  by (simp_all add: fetched_result_def)

lemma poll_loop_raise:
  "polled_status w eid k = Inl e \<Longrightarrow>
   poll_loop cfg w eid t0 now k lst tr =
     Some (Raise e, now + status_duration w k, tr @ [GetStatus eid])"
  by (subst poll_loop.simps) (auto simp: polled_status_def Let_def split: sum.splits)

lemma poll_loop_break:
  "polled_status w eid k = Inr s \<Longrightarrow> s \<in> terminal \<Longrightarrow>
   poll_loop cfg w eid t0 now k lst tr =
     Some (Break, now + status_duration w k,
       if Some s \<noteq> lst then tr @ [GetStatus eid, LogStatus s] else tr @ [GetStatus eid])"
  by (subst poll_loop.simps) (auto simp: polled_status_def Let_def split: sum.splits)

lemma poll_loop_return:
  "polled_status w eid k = Inr s \<Longrightarrow> s \<notin> terminal \<Longrightarrow>
   now + status_duration w k - t0 > max_wait cfg \<Longrightarrow>
   poll_loop cfg w eid t0 now k lst tr =
     Some (Return (poll_timeout_msg s), now + status_duration w k,
       if Some s \<noteq> lst then tr @ [GetStatus eid, LogStatus s] else tr @ [GetStatus eid])"
  by (subst poll_loop.simps) (auto simp: polled_status_def Let_def split: sum.splits)

lemma poll_loop_sleep_error:
  "polled_status w eid k = Inr s \<Longrightarrow> s \<notin> terminal \<Longrightarrow>
   \<not> now + status_duration w k - t0 > max_wait cfg \<Longrightarrow> poll_interval cfg < 0 \<Longrightarrow>
   poll_loop cfg w eid t0 now k lst tr =
     Some (Raise (Exception (py ''sleep length must be non-negative'')), now + status_duration w k,
       if Some s \<noteq> lst then tr @ [GetStatus eid, LogStatus s] else tr @ [GetStatus eid])"
  by (subst poll_loop.simps) (auto simp: polled_status_def Let_def split: sum.splits)

lemma poll_loop_continue:
  "polled_status w eid k = Inr s \<Longrightarrow> s \<notin> terminal \<Longrightarrow>
   \<not> now + status_duration w k - t0 > max_wait cfg \<Longrightarrow> \<not> poll_interval cfg < 0 \<Longrightarrow>
   poll_loop cfg w eid t0 now k lst tr =
     poll_loop cfg w eid t0 (now + status_duration w k + poll_interval cfg) (Suc k) (Some s)
       ((if Some s \<noteq> lst then tr @ [GetStatus eid, LogStatus s] else tr @ [GetStatus eid])
        @ [Sleep (poll_interval cfg)])"
  by (subst poll_loop.simps) (auto simp: polled_status_def Let_def split: sum.splits)

lemma poll_loop_total_aux:
  assumes P: "0 < poll_interval cfg" and D: "\<forall>k. 0 \<le> status_duration w k"
  shows "max_wait cfg - (now - t0) < real n * poll_interval cfg \<Longrightarrow>
         \<exists>r. poll_loop cfg w eid t0 now k lst tr = Some r"
proof (induction n arbitrary: now k lst tr)
  case 0
  have d: "0 \<le> status_duration w k" using D by simp
  show ?case
  proof (cases "polled_status w eid k")
    case (Inl e)
    then show ?thesis by (simp add: poll_loop_raise)
  next
    case (Inr s)
    show ?thesis
    proof (cases "s \<in> terminal")
      case True
      with Inr show ?thesis by (simp add: poll_loop_break)
    next
      case False
      from 0 d have "now + status_duration w k - t0 > max_wait cfg" by simp
      with Inr False show ?thesis by (simp add: poll_loop_return)
    qed
  qed
next
  case (Suc n)
  have d: "0 \<le> status_duration w k" using D by simp
  show ?case
  proof (cases "polled_status w eid k")
    case (Inl e)
    then show ?thesis by (simp add: poll_loop_raise)
  next
    case (Inr s)
    show ?thesis
    proof (cases "s \<in> terminal")
      case True
      with Inr show ?thesis by (simp add: poll_loop_break)
    next
      case False
      show ?thesis
      proof (cases "now + status_duration w k - t0 > max_wait cfg")
        case True
        with Inr False show ?thesis by (simp add: poll_loop_return)
      next
        case nb: False
        have "max_wait cfg - (now + status_duration w k + poll_interval cfg - t0)
                < real n * poll_interval cfg"
          using Suc.prems d by (simp add: algebra_simps)
        from Suc.IH [OF this] P Inr False nb show ?thesis
          by (simp add: poll_loop_continue)
      qed
    qed
  qed
qed

lemma poll_loop_total:
  assumes "poll_interval cfg \<noteq> 0" and "\<forall>k. 0 \<le> status_duration w k"
  shows "\<exists>r. poll_loop cfg w eid t0 now k lst tr = Some r"
proof (cases "0 < poll_interval cfg")
  case True
  obtain n where "max_wait cfg - (now - t0) < real n * poll_interval cfg"
    using True reals_Archimedean3 by blast
  then show ?thesis
    using poll_loop_total_aux [OF True assms(2)] by blast
next
  case False
  with assms(1) have neg: "poll_interval cfg < 0" by simp
  show ?thesis
  proof (cases "polled_status w eid k")
    case (Inl e)
    then show ?thesis by (simp add: poll_loop_raise)
  next
    case (Inr s)
    show ?thesis
    proof (cases "s \<in> terminal")
      case True
      with Inr show ?thesis by (simp add: poll_loop_break)
    next
      case nt: False
      show ?thesis
      proof (cases "now + status_duration w k - t0 > max_wait cfg")
        case True
        with Inr nt show ?thesis by (simp add: poll_loop_return)
      next
        case False
        with Inr nt neg show ?thesis by (simp add: poll_loop_sleep_error)
      qed
    qed
  qed
qed

lemma poll_loop_run:
  "poll_loop cfg w eid t0 now k lst tr = Some r \<Longrightarrow> \<exists>n. run_inv cfg w eid t0 now k tr r n"
proof (induction rule: poll_loop.raw_induct [rotated 1, consumes 1])
  case (1 lp cfg w eid t0 now k lst tr r)
  note IH = 1(1) and body = 1(2)
  show ?case
  proof (cases "polled_status w eid k")
    case (Inl e)
    with body have "r = (Raise e, now + status_duration w k, tr @ [GetStatus eid])"
      by (auto simp: polled_status_def Let_def split: sum.splits)
    with Inl have "run_inv cfg w eid t0 now k tr r 0"
      by (simp add: run_inv_def)
    then show ?thesis ..
  next
    case (Inr s)
    define tr2 where
      "tr2 = (if Some s \<noteq> lst then tr @ [GetStatus eid, LogStatus s] else tr @ [GetStatus eid])"
    have tr2: "polls tr2 = Suc (polls tr)" "fetched_result tr2 = fetched_result tr"
      by (simp_all add: tr2_def)
    have step: "(if s \<in> terminal then Some (Break, now + status_duration w k, tr2)
         else if now + status_duration w k - t0 > max_wait cfg
           then Some (Return (poll_timeout_msg s), now + status_duration w k, tr2)
         else if poll_interval cfg < 0
           then Some (Raise (Exception (py ''sleep length must be non-negative'')),
                      now + status_duration w k, tr2)
         else lp cfg w eid t0 (now + status_duration w k + poll_interval cfg) (Suc k) (Some s)
                (tr2 @ [Sleep (poll_interval cfg)])) = Some r"
      using body Inr by (auto simp: polled_status_def Let_def tr2_def split: sum.splits)
    show ?thesis
    proof (cases "s \<in> terminal \<or> now + status_duration w k - t0 > max_wait cfg
                  \<or> poll_interval cfg < 0")
      case True
      with step Inr tr2 have "run_inv cfg w eid t0 now k tr r 0"
        by (auto simp: run_inv_def split: if_splits)
      then show ?thesis ..
    next
      case False
      with step have rec: "lp cfg w eid t0 (now + status_duration w k + poll_interval cfg) (Suc k)
            (Some s) (tr2 @ [Sleep (poll_interval cfg)]) = Some r"
        by simp
      from IH [OF rec] obtain n where
        n: "run_inv cfg w eid t0 (now + status_duration w k + poll_interval cfg) (Suc k)
              (tr2 @ [Sleep (poll_interval cfg)]) r n" ..
      obtain ex t tr' where r: "r = (ex, t, tr')"
        by (cases r) auto
      have nonterm: "\<forall>i<Suc n. \<exists>s. polled_status w eid (k + i) = Inr s \<and> s \<notin> terminal"
      proof (intro allI impI)
        fix i assume "i < Suc n"
        show "\<exists>s. polled_status w eid (k + i) = Inr s \<and> s \<notin> terminal"
        proof (cases i)
          case 0
          with Inr False show ?thesis by simp
        next
          case (Suc j)
          with \<open>i < Suc n\<close> n r show ?thesis
            by (simp add: run_inv_def)
        qed
      qed
      have "run_inv cfg w eid t0 now k tr r (Suc n)"
        using n r tr2 False nonterm unfolding run_inv_def
        by (simp del: all_simps) 
      then show ?thesis ..
    qed
  qed
qed

lemma poll_loop_pending:
  assumes "\<forall>i<n. pending cfg w eid i" and "0 \<le> poll_interval cfg"
  shows "\<exists>lst' tr'. poll_loop cfg w eid (clock0 w) (clock0 w) 0 lst tr =
            poll_loop cfg w eid (clock0 w) (poll_start cfg w n) n lst' tr'
          \<and> polls tr' = polls tr + n \<and> fetched_result tr' = fetched_result tr"
  using assms(1)
proof (induction n)
  case 0
  show ?case
    by (intro exI [of _ lst] exI [of _ tr]) simp
next
  case (Suc n)
  then obtain lst' tr' where
    eq: "poll_loop cfg w eid (clock0 w) (clock0 w) 0 lst tr =
           poll_loop cfg w eid (clock0 w) (poll_start cfg w n) n lst' tr'"
    and tr': "polls tr' = polls tr + n" "fetched_result tr' = fetched_result tr"
    by auto
  from Suc.prems have "pending cfg w eid n"
    by simp
  then obtain s where s: "polled_status w eid n = Inr s" "s \<notin> terminal"
    "\<not> poll_start cfg w n + status_duration w n - clock0 w > max_wait cfg"
    by (auto simp: pending_def split: sum.splits)
  define tr2 where
    "tr2 = (if Some s \<noteq> lst' then tr' @ [GetStatus eid, LogStatus s] else tr' @ [GetStatus eid])
           @ [Sleep (poll_interval cfg)]"
  have "poll_loop cfg w eid (clock0 w) (poll_start cfg w n) n lst' tr' =
          poll_loop cfg w eid (clock0 w) (poll_start cfg w (Suc n)) (Suc n) (Some s) tr2"
    using s assms(2) by (simp add: poll_loop_continue tr2_def)
  moreover have "polls tr2 = polls tr + Suc n" "fetched_result tr2 = fetched_result tr"
    using tr' by (simp_all add: tr2_def)
  ultimately show ?case
    using eq by metis
qed

lemma terminal_at_iff:
  "(\<exists>s'. polled_status w eid i = Inr s' \<and> s' \<in> terminal) \<longleftrightarrow>
   (\<exists>p s. get_status w eid i = Inr p \<and> status_or_empty p = Inr (JStr s) \<and> lower s \<in> terminal)"
  by (auto simp: polled_status_def status_of_def py_lower_def split: sum.splits json.splits)

section \<open>Properties of \<^verbatim>\<open>handle_default_route\<close>\<close>

subsection \<open>The parts of the function\<close>

lemma try_body_accepted:
  assumes "accepted w prompt user_id eid"
  shows "try_body cfg w prompt user_id =
     (case poll_loop cfg w eid (clock0 w) (clock0 w) 0 None
             [PostJson (request_body prompt user_id), LogStarted eid] of
        None \<Rightarrow> None
      | Some (Return msg, t, tr) \<Rightarrow> Some (Inr msg, tr)
      | Some (Raise e, t, tr) \<Rightarrow> Some (Inl e, tr)
      | Some (Break, t, tr) \<Rightarrow> Some (fetch_and_extract w eid tr))"
  using assms
  by (auto simp: accepted_def try_body_def py_get_def Let_def split: sum.splits json.splits)

lemma try_body_total:
  assumes "poll_interval cfg \<noteq> 0" and "\<forall>k. 0 \<le> status_duration w k"
  shows "\<exists>r tr. try_body cfg w prompt user_id = Some (r, tr)"
proof -
  have loop: "\<exists>ex t tr'. poll_loop cfg w eid t0 now k lst tr = Some (ex, t, tr')"
    for eid t0 now k lst tr
    using poll_loop_total [OF assms, of eid t0 now k lst tr] by auto
  show ?thesis
  proof (cases "post_reply w (request_body prompt user_id)")
    case (Inl e)
    then show ?thesis
      by (simp add: try_body_def Let_def)
  next
    case (Inr resp)
    show ?thesis
    proof (cases "\<exists>eid. accepted w prompt user_id eid")
      case True
      then obtain eid where acc: "accepted w prompt user_id eid" ..
      from loop [of eid "clock0 w" "clock0 w" 0 None
          "[PostJson (request_body prompt user_id), LogStarted eid]"]
      obtain ex t tr' where "poll_loop cfg w eid (clock0 w) (clock0 w) 0 None
          [PostJson (request_body prompt user_id), LogStarted eid] = Some (ex, t, tr')"
        by blast
      then show ?thesis
        by (cases ex; cases "fetch_and_extract w eid tr'") (simp_all add: try_body_accepted [OF acc])
    next
      case False
      with Inr show ?thesis
        by (auto simp: try_body_def accepted_def py_get_def dict_get_def truthy_def Let_def
            split: sum.splits json.splits)
    qed
  qed
qed

lemma snd_fetch_and_extract: "snd (fetch_and_extract w eid tr) = tr @ [GetResult eid]"
  by (simp add: fetch_and_extract_def Let_def split: sum.splits option.splits)

lemma except_clauses_trace:
  "polls (snd (except_clauses e tr)) = polls tr"
  "fetched_result (snd (except_clauses e tr)) = fetched_result tr"
  by (cases e; simp add: except_clauses_def)+

lemma handle_default_route_trace:
  assumes "try_body cfg w prompt user_id = Some (r, tr1)"
    and "handle_default_route cfg w prompt user_id = Some (reply, tr)"
  shows "polls tr = polls tr1 \<and> fetched_result tr = fetched_result tr1"
proof (cases r)
  case (Inl e)
  with assms have "tr = snd (except_clauses e tr1)"
    by (auto simp: handle_default_route_def)
  then show ?thesis
    by (simp add: except_clauses_trace)
next
  case (Inr s)
  with assms show ?thesis
    by (auto simp: handle_default_route_def)
qed

lemma raise_for_status_error:
  assumes "400 \<le> status_code r \<and> status_code r < 600"
  shows "raise_for_status r =
           Inl (RequestException
                  (str_int (status_code r)
                   @ (if status_code r < 500 then py '' Client Error: '' else py '' Server Error: '')
                   @ reason r @ py '' for url: '' @ url r))"
proof -
  have "py '' Client Error: '' \<noteq> []" "py '' Server Error: '' \<noteq> []"
    by (simp_all add: py_def)
  with assms show ?thesis
    by (simp add: raise_for_status_def http_error_msg_def)
qed

lemma network_err_not_backend_err:
  "[10060] @ py '' Network error. Backend unreachable.'' @ rest \<noteq> UX_backend_err code body"
  by (simp add: UX_backend_err_def py_def)

subsection \<open>Runs on the example backends\<close>

lemmas client_defs =
  handle_default_route_def try_body_def except_clauses_def fetch_and_extract_def no_text_reply_def
  get_status_def get_result_def raise_for_status_def http_error_msg_def status_of_def
  status_or_empty_def py_lower_def py_get_def dict_get_def truthy_def lower_def lower_char_def
  terminal_def extract_final_text_from_payload_def strip_def isspace_def request_body_def
  UX_timeout_def UX_network_err_def UX_backend_err_def UX_success_no_text_def
  poll_timeout_msg_def RUNTIME_def Let_def

lemmas world_defs =
  json_response_def text_response_def status_json_def result_42_def submission_only_def
  backend_def scenario_world_def slow_world_def stalled_world_def redirect_world_def
  failing_status_world_def failing_result_world_def

lemma accepted_backend:
  "accepted (backend statuses d result) prompt user_id (JStr (py ''abc''))"
  by (simp add: accepted_def backend_def json_response_def dict_get_def truthy_def py_def)

lemma accepted_scenario:
  "accepted scenario_world prompt user_id (JStr (py ''abc''))"
  by (simp add: accepted_def scenario_world_def dict_get_def truthy_def py_def)

lemma poll_start_backend:
  "poll_start cfg (backend statuses d result) k = real k * (d + poll_interval cfg)"
  by (induction k) (simp_all add: backend_def algebra_simps)

lemma running_not_terminal: "py ''running'' \<notin> terminal"
  by (simp add: terminal_def py_def)

lemma polled_status_json:
  "polled_status (backend statuses d result) eid k =
     (case statuses k of
        Inl e \<Rightarrow> Inl e
      | Inr r \<Rightarrow> (case raise_for_status r of Inl e \<Rightarrow> Inl e
                 | Inr _ \<Rightarrow> (case resp_json r of Inl e \<Rightarrow> Inl e | Inr p \<Rightarrow> status_of p)))"
  by (simp add: polled_status_def get_status_def backend_def split: sum.splits)

lemma polled_status_running:
  "statuses k = Inr (status_json ''running'') \<Longrightarrow>
   polled_status (backend statuses d result) eid k = Inr (py ''running'')"
  by (simp add: polled_status_json)
    (simp add: client_defs status_json_def json_response_def py_def)

lemma polled_status_completed:
  "statuses k = Inr (status_json ''completed'') \<Longrightarrow>
   polled_status (backend statuses d result) eid k = Inr (py ''completed'')"
  by (simp add: polled_status_json)
    (simp add: client_defs status_json_def json_response_def py_def)

lemma pending_first_running:
  "statuses 0 = Inr (status_json ''running'') \<Longrightarrow> 0 \<le> d \<Longrightarrow> d \<le> 120 \<Longrightarrow>
   pending RUNTIME (backend statuses d result) eid 0"
  by (simp add: pending_def polled_status_running running_not_terminal)
    (simp add: backend_def RUNTIME_def)

lemma stalled_pending:
  assumes "i < 12"
  shows "pending RUNTIME stalled_world eid i"
proof -
  have "polled_status stalled_world eid i = Inr (py ''running'')"
    unfolding stalled_world_def using assms by (intro polled_status_running) simp
  moreover have "\<not> (poll_start RUNTIME stalled_world i + status_duration stalled_world i
                      - clock0 stalled_world > max_wait RUNTIME)"
    using assms by (simp add: stalled_world_def poll_start_backend) (simp add: backend_def RUNTIME_def)
  ultimately show ?thesis
    by (simp add: pending_def running_not_terminal)
qed

lemma stalled_statuses:
  "map (polled_status stalled_world (JStr (py ''abc''))) [0..<13] =
     map Inr (replicate 12 (py ''running'') @ [[]])"
  by code_simp

lemma scenario_run:
  "handle_default_route RUNTIME scenario_world prompt user_id =
     Some (py ''42'',
       [PostJson (request_body prompt user_id), LogStarted (JStr (py ''abc'')),
        GetStatus (JStr (py ''abc'')), LogStatus (py ''running''), Sleep 1,
        GetStatus (JStr (py ''abc'')), LogStatus (py ''completed''),
        GetResult (JStr (py ''abc''))])"
  by (simp add: poll_loop.simps client_defs world_defs py_def)

lemma stalled_run:
  "map_option (\<lambda>(reply, tr). (reply, polls tr, fetched_result tr))
     (handle_default_route RUNTIME stalled_world (py ''hi'') 7) =
   Some ([9888, 65039] @ py '' Backend timed out waiting for result (last status=unknown).'',
         13, False)"
  by (simp add: poll_loop.simps client_defs world_defs py_def)

lemma slow_loop:
  "map_option (\<lambda>(ex, t, tr). (ex, t, polls tr))
     (poll_loop RUNTIME slow_world (JStr (py ''abc'')) (clock0 slow_world) (clock0 slow_world) 0 None
        [PostJson (request_body (py ''hi'') 7), LogStarted (JStr (py ''abc''))])
   = Some (Break, 129, 13)"
  by (simp add: poll_loop.simps client_defs world_defs py_def)

lemma redirect_run:
  "handle_default_route RUNTIME redirect_world (py ''hi'') 7 =
     Some (py ''42'',
       [PostJson (request_body (py ''hi'') 7), LogStarted (JStr (py ''abc'')),
        GetStatus (JStr (py ''abc'')), LogStatus (py ''completed''),
        GetResult (JStr (py ''abc''))])"
  by (simp add: poll_loop.simps client_defs world_defs py_def)

subsection \<open>The scenario of the specification\<close>

text \<open>
  Claim C2. In the scenario of the specification the function returns \<^verbatim>\<open>42\<close>, and what it
  has done is: the post, two status fetches with one sleep between them, and the result
  fetch.
\<close>

theorem scenario_two_polls:
  "handle_default_route RUNTIME scenario_world prompt user_id =
     Some (py ''42'',
       [PostJson (request_body prompt user_id), LogStarted (JStr (py ''abc'')),
        GetStatus (JStr (py ''abc'')), LogStatus (py ''running''), Sleep 1,
        GetStatus (JStr (py ''abc'')), LogStatus (py ''completed''),
        GetResult (JStr (py ''abc''))])
   \<and> map_option (polls \<circ> snd) (handle_default_route RUNTIME scenario_world prompt user_id) = Some 2"
  by (simp add: scenario_run)

subsection \<open>A rejected submission\<close>

text \<open>
  Claim C3. When the submission is answered with a status code outside 200 to 299, the
  function returns the backend-error text, which holds the decimal status code and the
  first 2000 characters of the response body (the whole body when it is shorter), and it
  has only posted: no status fetch and no result fetch.
\<close>

theorem submission_rejected:
  assumes "post_reply w (request_body prompt user_id) = Inr resp"
    and "\<not> (200 \<le> status_code resp \<and> status_code resp < 300)"
  shows "handle_default_route cfg w prompt user_id =
           Some ([10060] @ py '' Backend error '' @ str_int (status_code resp) @ py '':'' @ [10]
                   @ take 2000 (resp_text resp),
                 [PostJson (request_body prompt user_id)])
         \<and> polls [PostJson (request_body prompt user_id)] = 0
         \<and> \<not> fetched_result [PostJson (request_body prompt user_id)]"
  using assms by (simp add: handle_default_route_def try_body_def UX_backend_err_def Let_def)

text \<open>Claim C3 on a submission that is answered \<^verbatim>\<open>500\<close> with the body \<^verbatim>\<open>boom\<close>.\<close>

theorem submission_rejected_witness:
  "post_reply (submission_only (Inr (text_response 500 ''Internal Server Error''
        ''http://localhost:8000/api/v1/executions'' ''boom''))) (request_body (py ''hi'') 7)
     = Inr (text_response 500 ''Internal Server Error''
        ''http://localhost:8000/api/v1/executions'' ''boom'')
   \<and> handle_default_route RUNTIME
       (submission_only (Inr (text_response 500 ''Internal Server Error''
          ''http://localhost:8000/api/v1/executions'' ''boom''))) (py ''hi'') 7
     = Some ([10060] @ py '' Backend error 500:'' @ [10] @ py ''boom'',
             [PostJson (request_body (py ''hi'') 7)])"
proof -
  let ?r = "text_response 500 ''Internal Server Error''
        ''http://localhost:8000/api/v1/executions'' ''boom''"
  have post: "post_reply (submission_only (Inr ?r)) (request_body (py ''hi'') 7) = Inr ?r"
    by (simp add: submission_only_def)
  have code: "\<not> (200 \<le> status_code ?r \<and> status_code ?r < 300)"
    by (simp add: text_response_def)
  have "str_int (status_code ?r) = py ''500''"
    by (simp add: text_response_def str_int_def str_nat.simps py_def)
  moreover have "take 2000 (resp_text ?r) = py ''boom''"
    by (simp add: text_response_def py_def)
  ultimately show ?thesis
    using submission_rejected [OF post code, of RUNTIME] post by (simp add: py_def)
qed

subsection \<open>A submission without an identifier\<close>

text \<open>
  Claim C4, as amended. When the submission is answered with a 2xx response whose body
  is not JSON (then the parsed value is taken to be the empty dict) or is a JSON dict in
  which \<^verbatim>\<open>execution_id\<close> is missing or falsy, the function returns the "success, but no
  simple text field" text with the line \<^verbatim>\<open>(no execution_id)\<close> followed by the
  \<^verbatim>\<open>_json_compact\<close> rendering of the parsed dict: the parsed value rendered anew and cut at
  2000 characters, not the raw body. Nothing but the post has happened.
\<close>

theorem unusable_success:
  assumes "post_reply w (request_body prompt user_id) = Inr resp"
    and "200 \<le> status_code resp \<and> status_code resp < 300"
    and "(case resp_json resp of Inl e \<Rightarrow> JObj [] | Inr v \<Rightarrow> v) = JObj d"
    and "\<not> truthy (dict_get d (py ''execution_id''))"
  shows "handle_default_route cfg w prompt user_id =
           Some ([9989] @ py '' Success, but no simple text field found:'' @ [10]
                   @ py ''(no execution_id)'' @ [10] @ json_compact (JObj d),
                 [PostJson (request_body prompt user_id)])"
  using assms
  by (simp add: handle_default_route_def try_body_def UX_success_no_text_def py_get_def Let_def)

text \<open>
  Claim C4 as stated fails: a \<^verbatim>\<open>200\<close> whose body is the plain text \<^verbatim>\<open>oops\<close> has no
  identifier, and the reply shows \<^verbatim>\<open>{}\<close>; the raw body is no part of it.
\<close>

theorem unusable_success_counterexample:
  "resp_text (text_response 200 ''OK'' ''http://localhost:8000/api/v1/executions'' ''oops'')
     = py ''oops''
   \<and> handle_default_route RUNTIME
       (submission_only (Inr (text_response 200 ''OK''
          ''http://localhost:8000/api/v1/executions'' ''oops''))) (py ''hi'') 7
     = Some ([9989] @ py '' Success, but no simple text field found:'' @ [10]
               @ py ''(no execution_id)'' @ [10] @ py ''{}'',
             [PostJson (request_body (py ''hi'') 7)])
   \<and> \<not> sublist (py ''oops'')
         ([9989] @ py '' Success, but no simple text field found:'' @ [10]
            @ py ''(no execution_id)'' @ [10] @ py ''{}'')"
proof -
  have "\<not> sublist (py ''oops'')
         ([9989] @ py '' Success, but no simple text field found:'' @ [10]
            @ py ''(no execution_id)'' @ [10] @ py ''{}'')"
    by code_simp
  moreover have "handle_default_route RUNTIME
       (submission_only (Inr (text_response 200 ''OK''
          ''http://localhost:8000/api/v1/executions'' ''oops''))) (py ''hi'') 7
     = Some ([9989] @ py '' Success, but no simple text field found:'' @ [10]
               @ py ''(no execution_id)'' @ [10] @ py ''{}'',
             [PostJson (request_body (py ''hi'') 7)])"
    by (simp add: client_defs world_defs json_compact_def json_compact_limit_def json_dumps_def
        py_def)
  ultimately show ?thesis
    by (simp add: text_response_def)
qed

text \<open>Claim C4 as amended, on a \<^verbatim>\<open>200\<close> with the body \<^verbatim>\<open>{"message": "queued"}\<close>.\<close>

theorem unusable_success_witness:
  "handle_default_route RUNTIME
     (submission_only (Inr (json_response 200 ''OK'' ''http://localhost:8000/api/v1/executions''
        (JObj [(py ''message'', JStr (py ''queued''))])))) (py ''hi'') 7
     = Some ([9989] @ py '' Success, but no simple text field found:'' @ [10]
               @ py ''(no execution_id)'' @ [10]
               @ py ''{'' @ [10] @ py ''  '' @ [34] @ py ''message'' @ [34] @ py '': '' @ [34]
               @ py ''queued'' @ [34] @ [10] @ py ''}'',
             [PostJson (request_body (py ''hi'') 7)])"
proof -
  let ?d = "[(py ''message'', JStr (py ''queued''))]"
  let ?r = "json_response 200 ''OK'' ''http://localhost:8000/api/v1/executions'' (JObj ?d)"
  have post: "post_reply (submission_only (Inr ?r)) (request_body (py ''hi'') 7) = Inr ?r"
    by (simp add: submission_only_def)
  have code: "200 \<le> status_code ?r \<and> status_code ?r < 300"
    by (simp add: json_response_def)
  have parsed: "(case resp_json ?r of Inl e \<Rightarrow> JObj [] | Inr v \<Rightarrow> v) = JObj ?d"
    by (simp add: json_response_def)
  have noid: "\<not> truthy (dict_get ?d (py ''execution_id''))"
    by (simp add: dict_get_def truthy_def py_def)
  have "json_compact (JObj ?d) =
          py ''{'' @ [10] @ py ''  '' @ [34] @ py ''message'' @ [34] @ py '': '' @ [34]
               @ py ''queued'' @ [34] @ [10] @ py ''}''"
    by code_simp
  with unusable_success [OF post code parsed noid, of RUNTIME] show ?thesis
    by simp
qed

subsection \<open>The budget of the poll loop\<close>




subsection \<open>The terminal statuses\<close>



subsection \<open>Exceptions\<close>



subsection \<open>The time at which the loop is left\<close>




subsection \<open>HTTP errors of the status and result requests\<close>




end
